theory Spec2Isabelle
  imports Complex_Main "HOL-Library.List_Lexorder" "HOL-Library.Sublist" "HOL-Library.AList"
begin

section \<open>Python values used by the scraper\<close>

text \<open>
  The scraper runs with \<^verbatim>\<open>unicode_literals\<close>: every string is a sequence of Unicode
  code points. A code point is a natural number; ASCII literals are written through
  \<open>ustr\<close>.
\<close>

type_synonym uchar = nat
type_synonym ustring = "uchar list"

definition ustr :: "string \<Rightarrow> ustring" where
  "ustr s = map of_char s"

text \<open>Exceptions of the Python run time that the code can raise.\<close>

datatype error =
    ValueError
  | IndexError
  | AttributeError
  | KeyError
  | UnboundLocalError
  | IOError nat
  | URLError
  | PickleError
  | TypeError

text \<open>
  Subscription \<^verbatim>\<open>xs[i]\<close>: an index from \<open>0\<close> counts from the front, a negative
  one from the back, and anything else raises IndexError.
\<close>

definition py_index :: "'a list \<Rightarrow> int \<Rightarrow> error + 'a" where
  "py_index xs i =
     (if 0 \<le> i \<and> i < int (length xs) then Inr (xs ! nat i)
      else if i < 0 \<and> - i \<le> int (length xs) then Inr (xs ! nat (int (length xs) + i))
      else Inl IndexError)"

text \<open>
  \<^verbatim>\<open>unicode.isspace\<close> of Python 2.7: the characters that \<^verbatim>\<open>strip()\<close> and
  \<^verbatim>\<open>split()\<close> treat as white space.
\<close>

definition is_space :: "uchar \<Rightarrow> bool" where
  "is_space c \<longleftrightarrow>
     (9 \<le> c \<and> c \<le> 13) \<or> (28 \<le> c \<and> c \<le> 32) \<or> c = 133 \<or> c = 160 \<or> c = 5760 \<or>
     c = 6158 \<or> (8192 \<le> c \<and> c \<le> 8202) \<or> c = 8232 \<or> c = 8233 \<or> c = 8239 \<or>
     c = 8287 \<or> c = 12288"

definition strip :: "ustring \<Rightarrow> ustring" where
  "strip s = rev (dropWhile is_space (rev (dropWhile is_space s)))"

text \<open>
  \<^verbatim>\<open>s.split(sep)\<close> for a non-empty separator \<open>c # cs\<close>: the pieces between the
  non-overlapping occurrences of the separator, found from the left. \<open>acc\<close> holds the
  current piece, reversed.
\<close>

fun split_acc :: "'a \<Rightarrow> 'a list \<Rightarrow> 'a list \<Rightarrow> 'a list \<Rightarrow> 'a list list" where
  "split_acc c cs acc [] = [rev acc]"
| "split_acc c cs acc (x # xs) =
     (if x = c \<and> take (length cs) xs = cs
      then rev acc # split_acc c cs [] (drop (length cs) xs)
      else split_acc c cs (x # acc) xs)"

definition split_sep :: "'a list \<Rightarrow> 'a list \<Rightarrow> error + 'a list list" where
  "split_sep s sep =
     (case sep of [] \<Rightarrow> Inl ValueError | c # cs \<Rightarrow> Inr (split_acc c cs [] s))"

text \<open>\<^verbatim>\<open>s.rsplit(sep, 1)\<close> for a one-character separator: one piece, or two.\<close>

definition rsplit1 :: "'a list \<Rightarrow> 'a \<Rightarrow> 'a list list" where
  "rsplit1 s c =
     (if c \<in> set s
      then [rev (tl (dropWhile (\<lambda>x. x \<noteq> c) (rev s))), rev (takeWhile (\<lambda>x. x \<noteq> c) (rev s))]
      else [s])"

text \<open>\<^verbatim>\<open>s.split()\<close>: the maximal runs of characters that are not white space.\<close>

fun split_ws_acc :: "ustring \<Rightarrow> ustring \<Rightarrow> ustring list" where
  "split_ws_acc acc [] = (if acc = [] then [] else [rev acc])"
| "split_ws_acc acc (x # xs) =
     (if is_space x
      then (if acc = [] then split_ws_acc [] xs else rev acc # split_ws_acc [] xs)
      else split_ws_acc (x # acc) xs)"

definition split_ws :: "ustring \<Rightarrow> ustring list" where
  "split_ws s = split_ws_acc [] s"

text \<open>\<^verbatim>\<open>s.endswith(t)\<close> and \<^verbatim>\<open>s.startswith(t)\<close>.\<close>

definition endswith :: "'a list \<Rightarrow> 'a list \<Rightarrow> bool" where
  "endswith s t \<longleftrightarrow> suffix t s"

definition startswith :: "'a list \<Rightarrow> 'a list \<Rightarrow> bool" where
  "startswith s t \<longleftrightarrow> prefix t s"

section \<open>Locale parsers\<close>

text \<open>
  \<^verbatim>\<open>re.sub(r'([Ss])(trasse|tr.)\Z', r'\1tra\<ss>e', street)\<close>. The pattern is tried at
  every position from the left; it ends with \<^verbatim>\<open>\Z\<close>, so a match reaches the end of
  the string, and the unescaped dot stands for any character but a newline (code 10).
  The replacement keeps the matched S or s and writes \<^verbatim>\<open>tra\<ss>e\<close> (\<ss> is code 223).
\<close>

definition strasse_tail :: ustring where
  "strasse_tail = ustr ''tra'' @ [223] @ ustr ''e''"

fun sub_strasse :: "ustring \<Rightarrow> ustring" where
  "sub_strasse [] = []"
| "sub_strasse (c # cs) =
     (if (c = 83 \<or> c = 115) \<and>
         (cs = ustr ''trasse'' \<or> (length cs = 3 \<and> take 2 cs = ustr ''tr'' \<and> cs ! 2 \<noteq> 10))
      then c # strasse_tail
      else c # sub_strasse cs)"

text \<open>
  \<^verbatim>\<open>street, number = fields[0].rsplit(' ', 1)\<close>: unpacking one piece into two
  variables raises ValueError.
\<close>

definition unpack2 :: "'a list \<Rightarrow> error + ('a \<times> 'a)" where
  "unpack2 xs = (case xs of [a, b] \<Rightarrow> Inr (a, b) | _ \<Rightarrow> Inl ValueError)"

definition parse_address ::
  "ustring \<Rightarrow> error + (ustring option \<times> ustring option \<times> ustring)" where
  "parse_address address =
     (case split_sep address (ustr '', '') of
        Inl e \<Rightarrow> Inl e
      | Inr pieces \<Rightarrow>
          let fields = map strip pieces in
          if length fields = 2
          then (case py_index fields 0 of
                  Inl e \<Rightarrow> Inl e
                | Inr suburb \<Rightarrow> Inr (None, None, suburb))
          else (case py_index fields 0 of
                  Inl e \<Rightarrow> Inl e
                | Inr f0 \<Rightarrow>
                   (case unpack2 (rsplit1 f0 32) of
                      Inl e \<Rightarrow> Inl e
                    | Inr (street, number) \<Rightarrow>
                       (case py_index fields 1 of
                          Inl e \<Rightarrow> Inl e
                        | Inr suburb \<Rightarrow>
                            Inr (Some (sub_strasse street), Some number, suburb)))))"

section \<open>Listing store\<close>

text \<open>
  A listing as \<open>extract_listings\<close> builds it: the dictionary with the keys
  \<^verbatim>\<open>street\<close>, \<^verbatim>\<open>number\<close>, \<^verbatim>\<open>suburb\<close>, \<^verbatim>\<open>rent\<close> and \<^verbatim>\<open>area\<close>. A text value
  may be Python's \<^verbatim>\<open>None\<close>, which the store holds as NULL.
\<close>

type_synonym timestamp = nat

record listing =
  street :: "ustring option"
  number :: "ustring option"
  suburb :: "ustring option"
  rent :: real
  area :: real

text \<open>
  A row of the table \<^verbatim>\<open>listings\<close>: the listing's columns, the primary key \<^verbatim>\<open>id\<close>,
  the coordinates and the date. The table is declared \<^verbatim>\<open>WITHOUT ROWID\<close>, so its rows
  are kept in the order of the key.
\<close>

record row = listing +
  row_id :: ustring
  latitude :: "real option"
  longitude :: "real option"
  date :: timestamp

type_synonym table = "row list"

definition has_id :: "table \<Rightarrow> ustring \<Rightarrow> bool" where
  "has_id db i \<longleftrightarrow> i \<in> set (map row_id db)"

definition lookup_row :: "table \<Rightarrow> ustring \<Rightarrow> row option" where
  "lookup_row db i = find (\<lambda>r. row_id r = i) db"

text \<open>
  The row that the \<^verbatim>\<open>INSERT\<close> of \<open>store_listings\<close> writes: the six columns it names,
  NULL coordinates, and the column default \<^verbatim>\<open>CURRENT_TIMESTAMP\<close> as date.
\<close>

definition new_row :: "timestamp \<Rightarrow> ustring \<Rightarrow> listing \<Rightarrow> row" where
  "new_row now i y =
     \<lparr>street = street y, number = number y, suburb = suburb y, rent = rent y,
      area = area y, row_id = i, latitude = None, longitude = None, date = now\<rparr>"

text \<open>
  One execution of \<^verbatim>\<open>INSERT OR IGNORE INTO listings (id, street, number, suburb, rent,
  area) VALUES (?, ?, ?, ?, ?, ?)\<close>, on the table and the count of rows changed so far.
\<close>

definition insert_or_ignore ::
  "timestamp \<Rightarrow> table \<times> nat \<Rightarrow> ustring \<times> listing \<Rightarrow> table \<times> nat" where
  "insert_or_ignore now st t =
     (case (st, t) of ((db, n), (i, y)) \<Rightarrow>
        if has_id db i then (db, n)
        else (insort_key row_id (new_row now i y) db, n + 1))"

text \<open>
  \<open>store_listings\<close>: \<^verbatim>\<open>executemany\<close> runs the statement on every item of the
  dictionary, and the function returns \<^verbatim>\<open>cursor.rowcount\<close> as it is: the sum of the
  rows changed, and -1 when the dictionary is empty and the statement ran on no item
  (the value that \<open>add_coordinates\<close> guards against with \<^verbatim>\<open>max(0, c.rowcount)\<close>).
  The dictionary is the list of its items, in the order \<^verbatim>\<open>iteritems()\<close> yields them.
\<close>

definition store_listings ::
  "timestamp \<Rightarrow> table \<Rightarrow> (ustring \<times> listing) list \<Rightarrow> table \<times> int" where
  "store_listings now db listings =
     (case foldl (insert_or_ignore now) (db, 0) listings of
        (db', n) \<Rightarrow> (db', if listings = [] then - 1 else int n))"

text \<open>
  The query of \<open>add_coordinates\<close>: \<^verbatim>\<open>SELECT id, street, number, suburb FROM listings
  WHERE (latitude IS NULL) AND (suburb NOT NULL) AND (street NOT NULL) AND
  (number NOT NULL)\<close>.
\<close>

definition select_missing_coordinates ::
  "table \<Rightarrow> (ustring \<times> ustring \<times> ustring \<times> ustring) list" where
  "select_missing_coordinates db =
     List.map_filter (\<lambda>r.
        case (latitude r, suburb r, street r, number r) of
          (None, Some sb, Some st, Some nu) \<Rightarrow> Some (row_id r, st, nu, sb)
        | _ \<Rightarrow> None) db"

subsection \<open>Sample rows\<close>

definition stored_row :: row where
  "stored_row =
     \<lparr>street = None, number = None, suburb = Some (ustr ''Oststadt''), rent = 500,
      area = 50, row_id = ustr ''7'', latitude = None, longitude = None, date = 1\<rparr>"

definition no_address_row :: row where
  "no_address_row =
     \<lparr>street = Some [], number = Some [], suburb = Some [], rent = 500,
      area = 50, row_id = ustr ''7'', latitude = None, longitude = None, date = 1\<rparr>"

section \<open>Rate-limited, persistently memoized geocoding\<close>

subsection \<open>Clock\<close>

text \<open>
  The system clock, as the rate limiter sees it. \<open>clock\<close> is the current reading and
  \<open>ticks\<close> the time that passes before each of the next readings (none once the list
  is used up). \<^verbatim>\<open>time.time()\<close> lets the next tick pass and reads the clock;
  \<^verbatim>\<open>time.sleep(d)\<close> advances the clock by \<open>d\<close>, and raises IOError (EINVAL, 22) for
  a negative \<open>d\<close>. A sleep that lasts longer than asked is a positive tick at the next
  reading.
\<close>

record world =
  clock :: real
  ticks :: "real list"

definition time_time :: "world \<Rightarrow> real \<times> world" where
  "time_time w =
     (case ticks w of
        [] \<Rightarrow> (clock w, w)
      | d # ds \<Rightarrow> (clock w + d, w\<lparr>clock := clock w + d, ticks := ds\<rparr>))"

definition time_sleep :: "real \<Rightarrow> world \<Rightarrow> error + world" where
  "time_sleep d w = (if d < 0 then Inl (IOError 22) else Inr (w\<lparr>clock := clock w + d\<rparr>))"

subsection \<open>Arguments of a call\<close>

datatype pyval = PNone | PInt int | PStr ustring | PTuple "pyval list"

type_synonym args = "pyval list"
type_synonym kwargs = "(ustring \<times> pyval) list"

text \<open>
  A decorated function: positional arguments, keyword arguments (a dictionary, as the
  list of its items) and the state it works on; it returns a value or raises.
\<close>

type_synonym ('s, 'v) pyfun = "args \<Rightarrow> kwargs \<Rightarrow> 's \<Rightarrow> (error + 'v) \<times> 's"

subsection \<open>Rate limiter\<close>

text \<open>
  The wrapper of \<open>rate_limited(calls, seconds)\<close>. Its state is the list
  \<open>last_calls\<close> of the closure and the world that \<open>f\<close> works on; the time stamp of
  the call is appended after the sleep, then \<open>f\<close> runs.
\<close>

definition rate_limited_call ::
  "(world, 'v) pyfun \<Rightarrow> args \<Rightarrow> kwargs \<Rightarrow> real list \<Rightarrow> world \<Rightarrow> (error + 'v) \<times> real list \<times> world" where
  "rate_limited_call f a kw last_calls w =
     (case time_time w of (t, w') \<Rightarrow>
        (case f a kw w' of (r, w'') \<Rightarrow> (r, last_calls @ [t], w'')))"

definition rate_limited ::
  "int \<Rightarrow> real \<Rightarrow> (world, 'v) pyfun \<Rightarrow> (real list \<times> world, 'v) pyfun" where
  "rate_limited calls seconds f a kw st =
     (case st of (last_calls0, w0) \<Rightarrow>
       (case time_time w0 of (now, w1) \<Rightarrow>
          let last_calls = filter (\<lambda>x. now - x \<le> seconds) last_calls0 in
          if int (length last_calls) \<ge> calls
          then (case (if calls = 1 then py_index last_calls (- 1) else py_index last_calls 1) of
                  Inl e \<Rightarrow> (Inl e, last_calls, w1)
                | Inr x \<Rightarrow>
                   (case time_sleep (x + seconds - now) w1 of
                      Inl e \<Rightarrow> (Inl e, last_calls, w1)
                    | Inr w2 \<Rightarrow> rate_limited_call f a kw last_calls w2))
          else rate_limited_call f a kw last_calls w1))"

subsection \<open>Persistent memoizer\<close>

text \<open>
  The cache file. Opening it for reading raises IOError with an errno (2 is ENOENT), or
  it holds bytes that \<^verbatim>\<open>pickle.load\<close> rejects, or it holds a pickled mapping.
  \<open>write_error\<close> is the errno with which opening the file for writing fails, if it
  does; the file is then left as it is.
\<close>

type_synonym key = "pyval list"
type_synonym 'v cache = "key \<Rightarrow> 'v option"

datatype 'v cache_file = OpenFails nat | Garbage | Pickled "'v cache"

record 'v disk =
  content :: "'v cache_file"
  write_error :: "nat option"

definition ENOENT :: nat where
  "ENOENT = 2"


text \<open>\<^verbatim>\<open>key = args + tuple(sorted(kwargs.items()))\<close>; the names of a dictionary differ.\<close>

definition memo_key :: "args \<Rightarrow> kwargs \<Rightarrow> key" where
  "memo_key a kw = a @ map (\<lambda>(k, v). PTuple [PStr k, v]) (sort_key fst kw)"

text \<open>
  The wrapper of the memoizer, on the cache of the closure, the disk and the state of
  \<open>f\<close>.
\<close>

definition memoized :: "('s, 'v) pyfun \<Rightarrow> ('v cache \<times> 'v disk \<times> 's, 'v) pyfun" where
  "memoized f a kw st =
     (case st of (cache, d, s) \<Rightarrow>
        let key = memo_key a kw in
        case cache key of
          Some v \<Rightarrow> (Inr v, cache, d, s)
        | None \<Rightarrow>
           (case f a kw s of
              (Inl e, s') \<Rightarrow> (Inl e, cache, d, s')
            | (Inr v, s') \<Rightarrow>
                let cache' = cache(key \<mapsto> v) in
                (case write_error d of
                   Some errno \<Rightarrow> (Inl (IOError errno), cache', d, s')
                 | None \<Rightarrow> (Inr v, cache', d\<lparr>content := Pickled cache'\<rparr>, s'))))"

subsection \<open>Geocoding\<close>

text \<open>
  Binding the call \<open>get_coordinates(*args, **kwargs)\<close> to the parameters
  \<open>address\<close> and \<open>timeout=5\<close>; a call that does not fit the signature raises
  TypeError.
\<close>

definition bind_parameter :: "nat \<Rightarrow> ustring \<Rightarrow> pyval option \<Rightarrow> args \<Rightarrow> kwargs \<Rightarrow> error + pyval" where
  "bind_parameter n name dflt a kw =
     (if n < length a
      then (if map_of kw name = None then Inr (a ! n) else Inl TypeError)
      else (case map_of kw name of
              Some v \<Rightarrow> Inr v
            | None \<Rightarrow> (case dflt of Some v \<Rightarrow> Inr v | None \<Rightarrow> Inl TypeError)))"

definition bind_get_coordinates :: "args \<Rightarrow> kwargs \<Rightarrow> error + (pyval \<times> pyval)" where
  "bind_get_coordinates a kw =
     (if length a > 2 \<or> (\<exists>k \<in> fst ` set kw. k \<noteq> ustr ''address'' \<and> k \<noteq> ustr ''timeout'')
      then Inl TypeError
      else (case bind_parameter 0 (ustr ''address'') None a kw of
              Inl e \<Rightarrow> Inl e
            | Inr address \<Rightarrow>
               (case bind_parameter 1 (ustr ''timeout'') (Some (PInt 5)) a kw of
                  Inl e \<Rightarrow> Inl e
                | Inr timeout \<Rightarrow> Inr (address, timeout))))"

text \<open>
  The geocoding service \<^verbatim>\<open>_geolocator.geocode(address, timeout=timeout)\<close> is a
  parameter: it answers with a location, with \<^verbatim>\<open>None\<close>, or raises.
\<close>

type_synonym geocoder = "pyval \<Rightarrow> pyval \<Rightarrow> world \<Rightarrow> (error + (real \<times> real) option) \<times> world"

type_synonym coordinates = "real option \<times> real option"

definition get_coordinates_body :: "geocoder \<Rightarrow> (world, coordinates) pyfun" where
  "get_coordinates_body geocode a kw w =
     (case bind_get_coordinates a kw of
        Inl e \<Rightarrow> (Inl e, w)
      | Inr (address, timeout) \<Rightarrow>
         (case geocode address timeout w of
            (Inl e, w') \<Rightarrow> (Inl e, w')
          | (Inr None, w') \<Rightarrow> (Inr (None, None), w')
          | (Inr (Some (lat, lon)), w') \<Rightarrow> (Inr (Some lat, Some lon), w')))"

text \<open>
  \<open>get_coordinates\<close>: the memoizer around the rate limiter (one call per second)
  around the body.
\<close>

definition get_coordinates ::
  "geocoder \<Rightarrow> (coordinates cache \<times> coordinates disk \<times> real list \<times> world, coordinates) pyfun" where
  "get_coordinates geocode = memoized (rate_limited 1 1 (get_coordinates_body geocode))"

subsection \<open>A sample service and disk\<close>

text \<open>
  A geocoding service that knows the address A, reports no match for B, and for any
  other address times out until the clock reads 10.
\<close>

definition sample_geocoder :: geocoder where
  "sample_geocoder address timeout w =
     (if address = PStr (ustr ''A'') then (Inr (Some (49, 8)), w)
      else if address = PStr (ustr ''B'') then (Inr None, w)
      else if clock w < 10 then (Inl URLError, w)
      else (Inr (Some (48, 9)), w))"

definition empty_disk :: "coordinates disk" where
  "empty_disk = \<lparr>content = OpenFails ENOENT, write_error = None\<rparr>"

definition later_world :: world where
  "later_world = \<lparr>clock = 20, ticks = []\<rparr>"

definition start_world :: world where
  "start_world = \<lparr>clock = 0, ticks = []\<rparr>"

subsection \<open>A sequence of rate-limited calls\<close>

text \<open>
  \<open>call_times calls seconds n\<close> calls a function decorated with
  \<open>rate_limited(calls, seconds)\<close> \<open>n\<close> times, one call after the other, and returns
  the time stamp each call recorded before it ran the function.
\<close>

definition no_op :: "(world, unit) pyfun" where
  "no_op a kw w = (Inr (), w)"

fun call_times :: "int \<Rightarrow> real \<Rightarrow> nat \<Rightarrow> real list \<times> world \<Rightarrow> error + real list" where
  "call_times calls seconds 0 st = Inr []"
| "call_times calls seconds (Suc n) st =
     (case rate_limited calls seconds no_op [] [] st of
        (Inl e, st') \<Rightarrow> Inl e
      | (Inr u, last_calls, w) \<Rightarrow>
         (case call_times calls seconds n (last_calls, w) of
            Inl e \<Rightarrow> Inl e
          | Inr ts \<Rightarrow> Inr (last last_calls # ts)))"

section \<open>Listing extractor\<close>

text \<open>
  What the calls of the HTML library return on a result page. An object of the parse
  tree is a text node or a tag; \<^verbatim>\<open>unicode(x)\<close> is the text of a text node and the
  markup of a tag, and a tag counts as true whatever it holds.
\<close>

datatype soup_node = Text ustring | Tag ustring

record span =
  span_markup :: ustring
  span_contents :: "soup_node list"

text \<open>
  A block \<^verbatim>\<open>article.result-list-entry\<close>: the \<^verbatim>\<open>href\<close> of each of its links, if
  it has one; its address div, if any, with the first span of the div, if any; and for
  each of its lists \<^verbatim>\<open>dl.result-list-entry__primary-criterion\<close> the first
  \<^verbatim>\<open>dd\<close>, if any, with its \<^verbatim>\<open>.string\<close>, which may be \<^verbatim>\<open>None\<close>.
\<close>

record entry =
  anchors :: "ustring option list"
  address_div :: "span option option"
  criteria :: "ustring option option list"

text \<open>
  A page: its blocks, and the \<^verbatim>\<open>.string\<close> of each option of the element with the
  id \<^verbatim>\<open>pageSelection\<close>, if the page has that element.
\<close>

record soup =
  entries :: "entry list"
  page_selection :: "ustring option list option"

text \<open>
  The built-in conversions \<^verbatim>\<open>float\<close> and \<^verbatim>\<open>int\<close> of a string are parameters of
  the model.
\<close>

type_synonym py_float = "ustring \<Rightarrow> error + real"
type_synonym py_int = "ustring \<Rightarrow> error + int"

definition parse_german_float :: "py_float \<Rightarrow> ustring \<Rightarrow> error + real" where
  "parse_german_float flt s = flt (map (\<lambda>c. if c = 44 then 46 else c) (filter (\<lambda>c. c \<noteq> 46) s))"

text \<open>
  The loop over the links of a block: the first \<^verbatim>\<open>href\<close> that starts with
  \<^verbatim>\<open>/expose/\<close> gives the identifier, its part after the last slash; without such a
  link the block has none.
\<close>

fun find_listing_id :: "ustring option list \<Rightarrow> error + ustring option" where
  "find_listing_id [] = Inr None"
| "find_listing_id (a # as) =
     (if startswith (case a of None \<Rightarrow> [] | Some h \<Rightarrow> h) (ustr ''/expose/'')
      then (case a of
              None \<Rightarrow> Inl AttributeError
            | Some h \<Rightarrow>
               (case split_sep h (ustr ''/'') of
                  Inl e \<Rightarrow> Inl e
                | Inr parts \<Rightarrow>
                   (case py_index parts (- 1) of Inl e \<Rightarrow> Inl e | Inr i \<Rightarrow> Inr (Some i))))
      else find_listing_id as)"

text \<open>
  The value of \<^verbatim>\<open>street_span\<close> after the \<^verbatim>\<open>try\<close>: \<^verbatim>\<open>None\<close> when the div has no
  span (the lookup of \<^verbatim>\<open>contents\<close> fails and is passed over; the link looked up in
  between is dropped), the span itself when it has no children, its first child
  otherwise. A block without the address div raises AttributeError.
\<close>

definition street_span :: "entry \<Rightarrow> error + soup_node option" where
  "street_span e =
     (case address_div e of
        None \<Rightarrow> Inl AttributeError
      | Some None \<Rightarrow> Inr None
      | Some (Some sp) \<Rightarrow>
         (case py_index (span_contents sp) 0 of
            Inl err \<Rightarrow> Inr (Some (Tag (span_markup sp)))
          | Inr n \<Rightarrow> Inr (Some n)))"

definition truthy :: "soup_node option \<Rightarrow> bool" where
  "truthy x = (case x of None \<Rightarrow> False | Some (Text s) \<Rightarrow> s \<noteq> [] | Some (Tag m) \<Rightarrow> True)"

definition unicode_of :: "soup_node \<Rightarrow> ustring" where
  "unicode_of x = (case x of Text s \<Rightarrow> s | Tag m \<Rightarrow> m)"

text \<open>
  The state of the loop of \<open>extract_listings\<close>: the dictionary \<open>listings\<close>, the
  counter, and the local variables \<open>rent\<close> and \<open>area\<close>, unbound at first. They are
  local to the function, not to the iteration.
\<close>

record extraction =
  listings :: "(ustring \<times> listing) list"
  no_addresses :: nat
  rent_var :: "real option"
  area_var :: "real option"

text \<open>
  The loop over the criteria of a block. \<^verbatim>\<open>unicode(None)\<close> is the string
  \<^verbatim>\<open>None\<close>; the euro sign is code 8364 and the superscript two code 178.
\<close>

fun scan_criteria ::
  "py_float \<Rightarrow> ustring option option list \<Rightarrow> real option \<times> real option \<Rightarrow>
   error + (real option \<times> real option)" where
  "scan_criteria flt [] ra = Inr ra"
| "scan_criteria flt (dl # dls) ra =
     (case dl of
        None \<Rightarrow> Inl AttributeError
      | Some dd_string \<Rightarrow>
          let content = strip (case dd_string of None \<Rightarrow> ustr ''None'' | Some s \<Rightarrow> s) in
          if endswith content [32, 8364]
          then (case py_index (split_ws content) 0 of
                  Inl e \<Rightarrow> Inl e
                | Inr tok \<Rightarrow>
                   (case parse_german_float flt tok of
                      Inl e \<Rightarrow> Inl e
                    | Inr r \<Rightarrow> scan_criteria flt dls (Some r, snd ra)))
          else if endswith content [32, 109, 178]
          then (case py_index (split_ws content) 0 of
                  Inl e \<Rightarrow> Inl e
                | Inr tok \<Rightarrow>
                   (case parse_german_float flt tok of
                      Inl e \<Rightarrow> Inl e
                    | Inr a \<Rightarrow> scan_criteria flt dls (fst ra, Some a)))
          else scan_criteria flt dls ra)"

text \<open>
  The address of a block: the empty strings and a count of one when \<^verbatim>\<open>street_span\<close>
  is false, the parsed address otherwise.
\<close>

definition entry_address ::
  "entry \<Rightarrow> error + ((ustring option \<times> ustring option \<times> ustring option) \<times> nat)" where
  "entry_address e =
     (case street_span e of
        Inl err \<Rightarrow> Inl err
      | Inr sp \<Rightarrow>
          if \<not> truthy sp then Inr ((Some [], Some [], Some []), 1)
          else (case sp of
                  None \<Rightarrow> Inl AttributeError
                | Some x \<Rightarrow>
                   (case parse_address (unicode_of x) of
                      Inl err \<Rightarrow> Inl err
                    | Inr (st, nu, sb) \<Rightarrow> Inr ((st, nu, Some sb), 0))))"

text \<open>One iteration of the loop: a block without identifier is passed over.\<close>

definition extract_entry :: "py_float \<Rightarrow> entry \<Rightarrow> extraction \<Rightarrow> error + extraction" where
  "extract_entry flt e s =
     (case find_listing_id (anchors e) of
        Inl err \<Rightarrow> Inl err
      | Inr None \<Rightarrow> Inr s
      | Inr (Some listing_id) \<Rightarrow>
         (case entry_address e of
            Inl err \<Rightarrow> Inl err
          | Inr ((st, nu, sb), missing) \<Rightarrow>
             (case scan_criteria flt (criteria e) (rent_var s, area_var s) of
                Inl err \<Rightarrow> Inl err
              | Inr (None, a) \<Rightarrow> Inl UnboundLocalError
              | Inr (Some r, None) \<Rightarrow> Inl UnboundLocalError
              | Inr (Some r, Some a) \<Rightarrow>
                  Inr \<lparr>listings =
                         AList.update listing_id
                           \<lparr>street = st, number = nu, suburb = sb, rent = r, area = a\<rparr>
                           (listings s),
                       no_addresses = no_addresses s + missing,
                       rent_var = Some r, area_var = Some a\<rparr>)))"

fun extract_loop :: "py_float \<Rightarrow> entry list \<Rightarrow> extraction \<Rightarrow> error + extraction" where
  "extract_loop flt [] s = Inr s"
| "extract_loop flt (e # es) s =
     (case extract_entry flt e s of
        Inl err \<Rightarrow> Inl err
      | Inr s' \<Rightarrow> extract_loop flt es s')"

definition extract_listings ::
  "py_float \<Rightarrow> soup \<Rightarrow> error + ((ustring \<times> listing) list \<times> nat)" where
  "extract_listings flt page =
     (case extract_loop flt (entries page)
             \<lparr>listings = [], no_addresses = 0, rent_var = None, area_var = None\<rparr> of
        Inl err \<Rightarrow> Inl err
      | Inr s \<Rightarrow> Inr (listings s, no_addresses s))"

definition extract_number_of_pages :: "py_int \<Rightarrow> soup \<Rightarrow> error + int" where
  "extract_number_of_pages to_int page =
     (case page_selection page of
        None \<Rightarrow> Inl AttributeError
      | Some pager_options \<Rightarrow>
         (case py_index pager_options (- 1) of
            Inl err \<Rightarrow> Inl err
          | Inr None \<Rightarrow> Inl AttributeError
          | Inr (Some s) \<Rightarrow>
             (case py_index (split_ws s) 0 of
                Inl err \<Rightarrow> Inl err
              | Inr tok \<Rightarrow> to_int tok)))"

subsection \<open>Sample blocks\<close>

text \<open>A conversion that knows the numerals of the samples.\<close>

definition sample_float :: py_float where
  "sample_float s =
     (if s = ustr ''500'' then Inr 500
      else if s = ustr ''50'' then Inr 50
      else if s = ustr ''1234.5'' then Inr 1234.5
      else Inl ValueError)"

text \<open>
  A block with identifier 101, the address \<^verbatim>\<open>Kaiserstr. 12, Innenstadt, Karlsruhe\<close>,
  500 euros and 50 square metres; a block with identifier 102, an address div without a
  span, 500 euros and 50 square metres; and a block like it, with identifier 103, that
  has no address div.
\<close>

definition full_entry :: entry where
  "full_entry =
     \<lparr>anchors = [None, Some (ustr ''/expose/101'')],
      address_div = Some (Some \<lparr>span_markup = ustr ''<span>Kaiserstr. 12, Innenstadt, Karlsruhe</span>'',
                            span_contents = [Text (ustr ''Kaiserstr. 12, Innenstadt, Karlsruhe'')]\<rparr>),
      criteria = [Some (Some (ustr ''500 '' @ [8364])), Some (Some (ustr ''50 m'' @ [178])),
                  Some (Some (ustr ''2''))]\<rparr>"

definition bare_entry :: entry where
  "bare_entry =
     \<lparr>anchors = [Some (ustr ''/expose/102'')], address_div = Some None,
      criteria = [Some (Some (ustr ''500 '' @ [8364])), Some (Some (ustr ''50 m'' @ [178]))]\<rparr>"

definition no_div_entry :: entry where
  "no_div_entry =
     \<lparr>anchors = [Some (ustr ''/expose/103'')], address_div = None,
      criteria = [Some (Some (ustr ''500 '' @ [8364])), Some (Some (ustr ''50 m'' @ [178]))]\<rparr>"

text \<open>
  A block with identifier 104, a two-field address and one criterion, the number of
  rooms; and the state of the loop after the first sample block.
\<close>

definition unpriced_entry :: entry where
  "unpriced_entry =
     \<lparr>anchors = [Some (ustr ''/expose/104'')],
      address_div = Some (Some \<lparr>span_markup = ustr ''<span>Oststadt, Karlsruhe</span>'',
                            span_contents = [Text (ustr ''Oststadt, Karlsruhe'')]\<rparr>),
      criteria = [Some (Some (ustr ''3''))]\<rparr>"

definition after_full_entry :: extraction where
  "after_full_entry =
     \<lparr>listings =
        [(ustr ''101'',
          \<lparr>street = Some (ustr ''Kaiserstra'' @ [223] @ ustr ''e''), number = Some (ustr ''12''),
           suburb = Some (ustr ''Innenstadt''), rent = 500, area = 50\<rparr>)],
      no_addresses = 0, rent_var = Some 500, area_var = Some 50\<rparr>"

section \<open>Pagination driver\<close>

text \<open>
  \<open>get_page\<close> downloads the base URL for page 1 and the page URL with the number
  filled in for any other page. The download, the built-in conversions and the time at
  which the listings of a page are stored are given by the environment.
\<close>

datatype url = BaseUrl | PageUrl int

record environment =
  download :: "url \<Rightarrow> error + soup"
  to_float :: py_float
  to_int :: py_int
  store_time :: "int \<Rightarrow> timestamp"

definition get_page :: "environment \<Rightarrow> int \<Rightarrow> error + soup" where
  "get_page env n = download env (if n = 1 then BaseUrl else PageUrl n)"

text \<open>
  The first three steps of an iteration of \<open>get_new_listings\<close>: the page is fetched,
  then the number of pages is extracted from it, then its listings.
\<close>

definition read_page ::
  "environment \<Rightarrow> int \<Rightarrow> error + (int \<times> (ustring \<times> listing) list \<times> nat)" where
  "read_page env n =
     (case get_page env n of
        Inl e \<Rightarrow> Inl e
      | Inr page \<Rightarrow>
         (case extract_number_of_pages (to_int env) page of
            Inl e \<Rightarrow> Inl e
          | Inr num \<Rightarrow>
             (case extract_listings (to_float env) page of
                Inl e \<Rightarrow> Inl e
              | Inr ls \<Rightarrow> Inr (num, ls))))"

text \<open>
  The variables of \<open>get_new_listings\<close>, with the store and the numbers of the pages
  logged as fetched. \<open>goes_on\<close> is the test of the loop,
  \<^verbatim>\<open>(not num_pages) or (page_index <= num_pages)\<close>: \<^verbatim>\<open>None\<close> and 0 are both false.
\<close>

record driver =
  database :: table
  num_pages :: "int option"
  page_index :: int
  non_addr_index :: nat
  new_count_index :: int
  fetched :: "int list"

definition goes_on :: "driver \<Rightarrow> bool" where
  "goes_on s = (case num_pages s of None \<Rightarrow> True | Some n \<Rightarrow> n = 0 \<or> page_index s \<le> n)"

text \<open>
  The loop may go on for ever; then the result is \<open>None\<close>. An exception ends it with
  the state reached.
\<close>

partial_function (option) get_new_listings_loop ::
  "environment \<Rightarrow> driver \<Rightarrow> (error \<times> driver + driver) option" where
  "get_new_listings_loop env s =
     (if goes_on s
      then (case read_page env (page_index s) of
              Inl e \<Rightarrow> Some (Inl (e, s\<lparr>fetched := fetched s @ [page_index s]\<rparr>))
            | Inr (num, ls, missing) \<Rightarrow>
               (case store_listings (store_time env (page_index s)) (database s) ls of
                  (db', new_count) \<Rightarrow>
                    get_new_listings_loop env
                      \<lparr>database = db', num_pages = Some num, page_index = page_index s + 1,
                       non_addr_index = non_addr_index s + missing,
                       new_count_index = new_count_index s + new_count,
                       fetched = fetched s @ [page_index s]\<rparr>))
      else Some (Inr s))"

definition get_new_listings :: "environment \<Rightarrow> table \<Rightarrow> (error \<times> driver + driver) option" where
  "get_new_listings env db0 =
     get_new_listings_loop env
       \<lparr>database = db0, num_pages = None, page_index = 1, non_addr_index = 0, new_count_index = 0,
        fetched = []\<rparr>"

subsection \<open>A sample site\<close>

text \<open>
  A site without listings whose first page offers the pages 1 and 2 and whose other
  pages offer the pages 1 to 3.
\<close>

definition sample_int :: py_int where
  "sample_int s =
     (if s = ustr ''1'' then Inr 1 else if s = ustr ''2'' then Inr 2
      else if s = ustr ''3'' then Inr 3 else Inl ValueError)"

definition growing_site :: environment where
  "growing_site =
     \<lparr>download = (\<lambda>u. case u of
          BaseUrl \<Rightarrow> Inr \<lparr>entries = [], page_selection = Some [Some (ustr ''1''), Some (ustr ''2'')]\<rparr>
        | PageUrl n \<Rightarrow>
            Inr \<lparr>entries = [],
                 page_selection = Some [Some (ustr ''1''), Some (ustr ''2''), Some (ustr ''3'')]\<rparr>),
      to_float = sample_float, to_int = sample_int, store_time = (\<lambda>n. 0)\<rparr>"

section \<open>Properties of the locale parsers\<close>

lemma split_acc_no_sep:
  "\<not> sublist (c # cs) xs \<Longrightarrow> split_acc c cs acc xs = [rev acc @ xs]"
proof (induction xs arbitrary: acc)
  case Nil
  then show ?case by simp
next
  case (Cons x xs)
  have no_tail: "\<not> sublist (c # cs) xs"
    using Cons.prems by (auto simp: sublist_Cons_right)
  have no_here: "\<not> (x = c \<and> take (length cs) xs = cs)"
  proof
    assume h: "x = c \<and> take (length cs) xs = cs"
    then have "x # xs = [] @ (c # cs) @ drop (length cs) xs"
      by (metis append_Cons append_Nil append_take_drop_id)
    then have "sublist (c # cs) (x # xs)"
      unfolding sublist_def by blast
    with Cons.prems show False by simp
  qed
  show ?case
    using no_here Cons.IH [OF no_tail, of "x # acc"] by simp
qed

text \<open>
  The two-field case, and the case of three fields or more whose first field, stripped,
  has a space: the street is what precedes the last space, with the substitution
  applied, the number what follows it, the suburb the second field, stripped.
\<close>

lemma parse_address_two_fields:
  "split_sep address (ustr '', '') = Inr [a, b] \<Longrightarrow>
   parse_address address = Inr (None, None, strip a)"
  by (simp add: parse_address_def py_index_def)

lemma rsplit1_last_space:
  assumes "c \<notin> set nu"
  shows "rsplit1 (st @ c # nu) c = [st, nu]"
proof -
  from assms have a: "\<And>x. x \<in> set (rev nu) \<Longrightarrow> x \<noteq> c" by auto
  have t: "takeWhile (\<lambda>x. x \<noteq> c) (rev nu @ c # rev st) = rev nu"
    using takeWhile_append2 [of "rev nu" "\<lambda>x. x \<noteq> c" "c # rev st"] a by simp
  have d: "dropWhile (\<lambda>x. x \<noteq> c) (rev nu @ c # rev st) = c # rev st"
    using dropWhile_append2 [of "rev nu" "\<lambda>x. x \<noteq> c" "c # rev st"] a by simp
  show ?thesis by (simp add: rsplit1_def t d)
qed

lemma parse_address_more_fields:
  assumes "split_sep address (ustr '', '') = Inr (f0 # f1 # f2 # fs)"
    and "strip f0 = st @ 32 # nu" and "32 \<notin> set nu"
  shows "parse_address address = Inr (Some (sub_strasse st), Some nu, strip f1)"
  using assms by (simp add: parse_address_def py_index_def rsplit1_last_space unpack2_def)

text \<open>
  The substitution rewrites a street that ends in S or s and \<^verbatim>\<open>trasse\<close>, or in S or
  s, \<^verbatim>\<open>tr\<close> and any one character but a newline, the full stop among them; it
  leaves every other street as it is.
\<close>

lemma sub_strasse_strasse:
  "c = 83 \<or> c = 115 \<Longrightarrow> sub_strasse (p @ c # ustr ''trasse'') = p @ c # strasse_tail"
proof (induction p)
  case Nil
  then show ?case by auto
next
  case (Cons a p)
  have "length (p @ c # ustr ''trasse'') \<noteq> length (ustr ''trasse'')"
    and "length (p @ c # ustr ''trasse'') \<noteq> 3" by (simp_all add: ustr_def)
  then have "p @ c # ustr ''trasse'' \<noteq> ustr ''trasse''" by metis
  with Cons \<open>length (p @ c # ustr ''trasse'') \<noteq> 3\<close> show ?case by simp
qed

lemma sub_strasse_any:
  "c = 83 \<or> c = 115 \<Longrightarrow> x \<noteq> 10 \<Longrightarrow>
   sub_strasse (p @ [c, 116, 114, x]) = p @ c # strasse_tail"
proof (induction p)
  case Nil
  then show ?case by (auto simp: ustr_def)
next
  case (Cons a p)
  have ne: "p @ [c, 116, 114, x] \<noteq> ustr ''trasse''"
  proof
    assume h: "p @ [c, 116, 114, x] = ustr ''trasse''"
    then have "length p = 2" by (auto simp: ustr_def dest: arg_cong [of _ _ length])
    then obtain u v where "p = [u, v]"
      by (cases p; cases "tl p") auto
    with h show False by (simp add: ustr_def)
  qed
  have "length (p @ [c, 116, 114, x]) \<noteq> 3" by simp
  with Cons ne show ?case by simp
qed

lemma sub_strasse_unchanged:
  "\<not> (\<exists>p c. (c = 83 \<or> c = 115) \<and>
         (s = p @ c # ustr ''trasse'' \<or> (\<exists>x. x \<noteq> 10 \<and> s = p @ [c, 116, 114, x]))) \<Longrightarrow>
   sub_strasse s = s"
proof (induction s)
  case Nil
  then show ?case by simp
next
  case (Cons a s)
  have tail: "\<not> (\<exists>p c. (c = 83 \<or> c = 115) \<and>
         (s = p @ c # ustr ''trasse'' \<or> (\<exists>x. x \<noteq> 10 \<and> s = p @ [c, 116, 114, x])))"
  proof
    assume "\<exists>p c. (c = 83 \<or> c = 115) \<and>
         (s = p @ c # ustr ''trasse'' \<or> (\<exists>x. x \<noteq> 10 \<and> s = p @ [c, 116, 114, x]))"
    then obtain p c where c: "c = 83 \<or> c = 115"
      and s: "s = p @ c # ustr ''trasse'' \<or> (\<exists>x. x \<noteq> 10 \<and> s = p @ [c, 116, 114, x])" by blast
    from s have "a # s = (a # p) @ c # ustr ''trasse'' \<or>
        (\<exists>x. x \<noteq> 10 \<and> a # s = (a # p) @ [c, 116, 114, x])" by auto
    with c Cons.prems show False by blast
  qed
  have head: "\<not> ((a = 83 \<or> a = 115) \<and>
      (s = ustr ''trasse'' \<or> (length s = 3 \<and> take 2 s = ustr ''tr'' \<and> s ! 2 \<noteq> 10)))"
  proof
    assume h: "(a = 83 \<or> a = 115) \<and>
      (s = ustr ''trasse'' \<or> (length s = 3 \<and> take 2 s = ustr ''tr'' \<and> s ! 2 \<noteq> 10))"
    then have a: "a = 83 \<or> a = 115" by simp
    from h have "s = ustr ''trasse'' \<or> (length s = 3 \<and> take 2 s = ustr ''tr'' \<and> s ! 2 \<noteq> 10)"
      by simp
    then show False
    proof
      assume "s = ustr ''trasse''"
      then have "a # s = [] @ a # ustr ''trasse''" by simp
      with a Cons.prems show False by blast
    next
      assume l: "length s = 3 \<and> take 2 s = ustr ''tr'' \<and> s ! 2 \<noteq> 10"
      then obtain u v x where s: "s = [u, v, x]"
        by (cases s; cases "tl s"; cases "tl (tl s)") auto
      with l have "u = 116" "v = 114" "x \<noteq> 10" by (auto simp: ustr_def)
      with s have "x \<noteq> 10 \<and> a # s = [] @ [a, 116, 114, x]" by simp
      with a Cons.prems show False by blast
    qed
  qed
  have "sub_strasse (a # s) = a # sub_strasse s"
    by (simp only: sub_strasse.simps head if_False)
  with Cons.IH [OF tail] show ?case by simp
qed

text \<open>
  Claim C7, at the input \<^verbatim>\<open>"Via Astra 5, Innenstadt, Karlsruhe"\<close>: the street
  \<^verbatim>\<open>Via Astra\<close> ends in no "strasse" or "str." abbreviation, and the unescaped dot
  of the pattern still matches its last four characters, so that the street returned is
  \<^verbatim>\<open>Via Astra\<ss>e\<close>.
\<close>

theorem parse_address_astra:
  "parse_address (ustr ''Via Astra 5, Innenstadt, Karlsruhe'') =
     Inr (Some (ustr ''Via Astra'' @ [223] @ ustr ''e''), Some (ustr ''5''),
          ustr ''Innenstadt'')"
  by (simp add: parse_address_def ustr_def split_sep_def strip_def is_space_def
      py_index_def rsplit1_def unpack2_def strasse_tail_def)

text \<open>
  Claim C10: an address without the separator \<^verbatim>\<open>", "\<close> is a single field, and
  \<open>parse_address\<close> returns no address for it. When the stripped field holds a space the
  lookup of the second field raises IndexError; when it holds none, unpacking the split
  of the first field raises ValueError before that.
\<close>

theorem parse_address_single_field:
  assumes "\<not> sublist (ustr '', '') address"
  shows "parse_address address =
           Inl (if 32 \<in> set (strip address) then IndexError else ValueError)"
proof -
  have sep: "ustr '', '' = 44 # [32]" by (simp add: ustr_def)
  have pieces: "split_sep address (ustr '', '') = Inr [address]"
    using assms split_acc_no_sep [of 44 "[32]" address "[]"]
    by (simp add: split_sep_def sep)
  show ?thesis
    by (simp add: parse_address_def pieces py_index_def rsplit1_def unpack2_def)
qed

theorem parse_address_single_field_witness:
  "\<not> sublist (ustr '', '') (ustr ''Hauptstra'' @ [223] @ ustr ''e 12'') \<and>
   parse_address (ustr ''Hauptstra'' @ [223] @ ustr ''e 12'') = Inl IndexError"
  using parse_address_single_field [of "ustr ''Hauptstra'' @ [223] @ ustr ''e 12''"]
  by (simp add: ustr_def sublist_Cons_right strip_def is_space_def)

section \<open>Properties of the listing store\<close>

lemma has_id_insort:
  "has_id (insort_key row_id r db) i \<longleftrightarrow> row_id r = i \<or> has_id db i"
  by (auto simp: has_id_def set_insort_key)

lemma find_insort_other:
  "row_id r \<noteq> i \<Longrightarrow>
   find (\<lambda>r. row_id r = i) (insort_key row_id r db) = find (\<lambda>r. row_id r = i) db"
  by (induction db) auto

lemma lookup_has_id: "lookup_row db i = Some r \<Longrightarrow> has_id db i"
  by (auto simp: lookup_row_def has_id_def find_Some_iff)

lemma insert_keeps_lookup:
  assumes a: "lookup_row db i = Some r"
  shows "lookup_row (fst (insert_or_ignore now (db, n) t)) i = Some r"
proof (cases t)
  case (Pair j y)
  show ?thesis
  proof (cases "has_id db j")
    case True
    then show ?thesis using a Pair by (simp add: insert_or_ignore_def)
  next
    case False
    with lookup_has_id [OF a] have "j \<noteq> i" by auto
    then have "row_id (new_row now j y) \<noteq> i" by (simp add: new_row_def)
    from find_insort_other [OF this] a False Pair show ?thesis
      by (simp add: insert_or_ignore_def lookup_row_def)
  qed
qed

lemma foldl_keeps_lookup:
  "lookup_row (fst st) i = Some r \<Longrightarrow>
   lookup_row (fst (foldl (insert_or_ignore now) st ls)) i = Some r"
proof (induction ls arbitrary: st)
  case Nil
  then show ?case by simp
next
  case (Cons t ls)
  obtain db n where st: "st = (db, n)" by (cases st)
  from Cons.prems st have "lookup_row (fst (insert_or_ignore now st t)) i = Some r"
    using insert_keeps_lookup by simp
  from Cons.IH [OF this] show ?case by simp
qed

lemma insert_has_id:
  "has_id (fst (insert_or_ignore now st t)) i \<longleftrightarrow> fst t = i \<or> has_id (fst st) i"
  by (cases st; cases t) (auto simp: insert_or_ignore_def has_id_insort new_row_def)

lemma foldl_has_id:
  "has_id (fst (foldl (insert_or_ignore now) st ls)) i \<longleftrightarrow>
     i \<in> fst ` set ls \<or> has_id (fst st) i"
  by (induction ls arbitrary: st) (auto simp: insert_has_id)

lemma foldl_all_known:
  "\<forall>t \<in> set ls. has_id (fst st) (fst t) \<Longrightarrow> foldl (insert_or_ignore now) st ls = st"
proof (induction ls arbitrary: st)
  case Nil
  then show ?case by simp
next
  case (Cons t ls)
  obtain db n where st: "st = (db, n)" by (cases st)
  obtain j y where t: "t = (j, y)" by (cases t)
  from Cons.prems st t have "insert_or_ignore now st t = st"
    by (simp add: insert_or_ignore_def)
  with Cons show ?case by simp
qed

lemma fst_store_listings:
  "fst (store_listings now db ls) = fst (foldl (insert_or_ignore now) (db, 0) ls)"
  by (simp add: store_listings_def split: prod.splits)

text \<open>
  Storing a set of listings a second time, at any later time \<open>t2\<close>, leaves the table as
  the first call left it, and returns the count 0 when the set is not empty; and a row
  that the table holds under an identifier is still the row held under it after any call
  of \<open>store_listings\<close>, whatever rent and area the listings give for that identifier.
\<close>

lemma store_listings_all_known:
  assumes "\<forall>t \<in> set ls. has_id d (fst t)"
  shows "store_listings now d ls = (d, if ls = [] then - 1 else 0)"
proof -
  from assms have "\<forall>t \<in> set ls. has_id (fst (d, 0::nat)) (fst t)" by simp
  from foldl_all_known [OF this]
  have "foldl (insert_or_ignore now) (d, 0) ls = (d, 0)" .
  then show ?thesis by (simp add: store_listings_def)
qed

lemma store_listings_again:
  "fst (store_listings t2 (fst (store_listings t1 db ls)) ls) = fst (store_listings t1 db ls) \<and>
   (ls \<noteq> [] \<longrightarrow>
      store_listings t2 (fst (store_listings t1 db ls)) ls = (fst (store_listings t1 db ls), 0))"
proof -
  have "\<forall>t \<in> set ls. has_id (fst (store_listings t1 db ls)) (fst t)"
    by (simp add: fst_store_listings foldl_has_id)
  from store_listings_all_known [OF this, of t2] show ?thesis by simp
qed

lemma store_listings_first_write_wins:
  "lookup_row db i = Some r \<Longrightarrow> lookup_row (fst (store_listings t1 db ls)) i = Some r"
  using foldl_keeps_lookup [of "(db, 0)" i r t1 ls] by (simp add: fst_store_listings)

text \<open>
  Claim C3, at the empty set of listings, which a result page without listings gives:
  both the first and the second call leave the table as it is, and the count that the
  second call returns is -1, not 0.
\<close>

theorem store_listings_empty_count:
  "store_listings 2 [stored_row] [] = ([stored_row], - 1) \<and>
   store_listings 3 (fst (store_listings 2 [stored_row] [])) [] = ([stored_row], - 1)"
  by (simp add: store_listings_def)

text \<open>
  Claim C5, as the code has it: the query returns exactly the rows whose latitude is NULL
  and whose street, number and suburb are not NULL. It does not ask for them to be
  non-empty.
\<close>

theorem select_missing_coordinates_iff:
  "(i, st, nu, sb) \<in> set (select_missing_coordinates db) \<longleftrightarrow>
     (\<exists>r \<in> set db. row_id r = i \<and> latitude r = None \<and> street r = Some st \<and>
        number r = Some nu \<and> suburb r = Some sb)"
proof (induction db)
  case Nil
  show ?case by (simp add: select_missing_coordinates_def map_filter_def)
next
  case (Cons a db)
  have step: "select_missing_coordinates (a # db) =
      (case (latitude a, suburb a, street a, number a) of
          (None, Some sb, Some st, Some nu) \<Rightarrow> [(row_id a, st, nu, sb)]
        | _ \<Rightarrow> []) @ select_missing_coordinates db"
    by (simp add: select_missing_coordinates_def map_filter_def split: option.splits)
  show ?case
    unfolding step using Cons.IH
    by (cases "latitude a"; cases "suburb a"; cases "street a"; cases "number a") auto
qed

theorem select_missing_coordinates_iff_witness:
  "(ustr ''7'', [], [], []) \<in> set (select_missing_coordinates [no_address_row]) \<and>
   (\<exists>r \<in> set [no_address_row]. row_id r = ustr ''7'' \<and> latitude r = None \<and>
      street r = Some [] \<and> number r = Some [] \<and> suburb r = Some [])"
  using select_missing_coordinates_iff [of "ustr ''7''" "[]" "[]" "[]" "[no_address_row]"]
  by (simp add: no_address_row_def)

text \<open>
  Claim C5 as stated fails on the row that the no-address case stores: its street,
  number and suburb are empty strings, not NULL, and the query selects it.
\<close>

theorem select_missing_coordinates_empty_strings:
  "select_missing_coordinates [no_address_row] = [(ustr ''7'', [], [], [])]"
  by (simp add: select_missing_coordinates_def map_filter_def no_address_row_def)

section \<open>Properties of the persistent memoizer\<close>





text \<open>
  Claim C4: when the key is missing and the wrapped function raises, the memoized
  function raises the same exception, and the cache and the disk are as before; a later
  call with the same arguments runs the wrapped function again and stores what it
  returns then.
\<close>

theorem memoized_error_not_cached:
  fixes f :: "('s, 'v) pyfun"
  assumes miss: "cache (memo_key a kw) = None" and raises: "f a kw s = (Inl e, s')"
  shows "memoized f a kw (cache, d, s) = (Inl e, cache, d, s') \<and>
         (f a kw s2 = (Inr v, s3) \<and> write_error d = None \<longrightarrow>
            memoized f a kw (cache, d, s2) =
              (Inr v, cache(memo_key a kw \<mapsto> v), d\<lparr>content := Pickled (cache(memo_key a kw \<mapsto> v))\<rparr>, s3))"
  using miss raises by (simp add: memoized_def Let_def)

theorem memoized_error_not_cached_witness:
  "(Map.empty :: coordinates cache) (memo_key [PStr (ustr ''C'')] []) = None \<and>
   rate_limited 1 1 (get_coordinates_body sample_geocoder) [PStr (ustr ''C'')] [] ([], start_world) =
     (Inl URLError, [0], start_world) \<and>
   get_coordinates sample_geocoder [PStr (ustr ''C'')] [] (Map.empty, empty_disk, [], start_world) =
     (Inl URLError, Map.empty, empty_disk, [0], start_world) \<and>
   rate_limited 1 1 (get_coordinates_body sample_geocoder) [PStr (ustr ''C'')] [] ([], later_world) =
     (Inr (Some 48, Some 9), [20], later_world) \<and>
   write_error empty_disk = None \<and>
   get_coordinates sample_geocoder [PStr (ustr ''C'')] [] (Map.empty, empty_disk, [], later_world) =
     (Inr (Some 48, Some 9), [memo_key [PStr (ustr ''C'')] [] \<mapsto> (Some 48, Some 9)],
      empty_disk\<lparr>content := Pickled [memo_key [PStr (ustr ''C'')] [] \<mapsto> (Some 48, Some 9)]\<rparr>,
      [20], later_world)"
proof -
  have r: "rate_limited 1 1 (get_coordinates_body sample_geocoder) [PStr (ustr ''C'')] [] ([], start_world) =
     (Inl URLError, [0], start_world)"
    by (simp add: rate_limited_def rate_limited_call_def time_time_def start_world_def
        get_coordinates_body_def bind_get_coordinates_def bind_parameter_def sample_geocoder_def
        ustr_def)
  have r2: "rate_limited 1 1 (get_coordinates_body sample_geocoder) [PStr (ustr ''C'')] [] ([], later_world) =
     (Inr (Some 48, Some 9), [20], later_world)"
    by (simp add: rate_limited_def rate_limited_call_def time_time_def later_world_def
        get_coordinates_body_def bind_get_coordinates_def bind_parameter_def sample_geocoder_def
        ustr_def)
  have w: "write_error empty_disk = None" by (simp add: empty_disk_def)
  from memoized_error_not_cached [where cache = Map.empty and a = "[PStr (ustr ''C'')]"
      and kw = "[]" and f = "rate_limited 1 1 (get_coordinates_body sample_geocoder)"
      and s = "([], start_world)" and e = URLError and s' = "([0], start_world)"
      and ?s2.0 = "([], later_world)" and v = "(Some 48, Some 9)"
      and ?s3.0 = "([20], later_world)" and d = empty_disk]
    r r2 w
  show ?thesis by (simp add: get_coordinates_def)
qed

section \<open>Properties of the rate limiter\<close>

lemma last_filter:
  "xs \<noteq> [] \<Longrightarrow> P (last xs) \<Longrightarrow> filter P xs \<noteq> [] \<and> last (filter P xs) = last xs"
  by (cases xs rule: rev_cases) auto

lemma time_time_ge: "\<forall>d \<in> set (ticks w). 0 \<le> d \<Longrightarrow> time_time w = (t, w') \<Longrightarrow>
   clock w \<le> t \<and> clock w' = t \<and> (\<forall>d \<in> set (ticks w'). 0 \<le> d)"
  by (auto simp: time_time_def split: list.splits)

lemma rate_limited_call_stamp:
  "\<forall>d \<in> set (ticks w). 0 \<le> d \<Longrightarrow> rate_limited_call f a kw lc w = (r, lc', w') \<Longrightarrow>
   lc' \<noteq> [] \<and> clock w \<le> last lc'"
  by (auto simp: rate_limited_call_def time_time_def split: list.splits prod.splits)

text \<open>
  With one call per window, the configuration the geocoder uses, a call is stamped at
  least \<open>seconds\<close> after the call before it, on any clock that does not run backwards.
\<close>

lemma rate_limited_single:
  assumes ticks: "\<forall>d \<in> set (ticks w). 0 \<le> d" and ne: "lc \<noteq> []"
    and run: "rate_limited 1 seconds f a kw (lc, w) = (r, lc', w')"
  shows "lc' \<noteq> [] \<and> last lc + seconds \<le> last lc'"
proof -
  obtain now w1 where tt: "time_time w = (now, w1)" by (cases "time_time w")
  from time_time_ge [OF ticks tt]
  have w1: "clock w1 = now" "\<forall>d \<in> set (ticks w1). 0 \<le> d" by auto
  let ?lc = "filter (\<lambda>x. now - x \<le> seconds) lc"
  show ?thesis
  proof (cases "now - last lc \<le> seconds")
    case True
    from last_filter [of lc "\<lambda>x. now - x \<le> seconds", OF ne True]
    have f: "?lc \<noteq> []" "last ?lc = last lc" by auto
    then have idx: "py_index ?lc (- 1) = Inr (last lc)"
      by (cases ?lc rule: rev_cases) (auto simp: py_index_def nat_add_distrib)
    have len: "int (length ?lc) \<ge> 1" using f(1) by (cases ?lc) auto
    let ?w2 = "w1\<lparr>clock := clock w1 + (last lc + seconds - now)\<rparr>"
    have sl: "time_sleep (last lc + seconds - now) w1 = Inr ?w2"
      using True by (simp add: time_sleep_def)
    from run tt idx len sl have "rate_limited_call f a kw ?lc ?w2 = (r, lc', w')"
      by (simp add: rate_limited_def Let_def)
    from rate_limited_call_stamp [OF _ this] w1 show ?thesis by simp
  next
    case False
    have "\<exists>l w2. rate_limited_call f a kw l w2 = (r, lc', w') \<and> now \<le> clock w2 \<and>
            (\<forall>d \<in> set (ticks w2). 0 \<le> d)"
    proof (cases "int (length ?lc) \<ge> 1")
      case False
      with run tt have "rate_limited_call f a kw ?lc w1 = (r, lc', w')"
        by (simp add: rate_limited_def Let_def)
      with w1 show ?thesis by auto
    next
      case True
      then have ne': "?lc \<noteq> []" by auto
      then have idx: "py_index ?lc (- 1) = Inr (last ?lc)"
        by (cases ?lc rule: rev_cases) (auto simp: py_index_def nat_add_distrib)
      have "last ?lc \<in> set ?lc" using ne' last_in_set by blast
      then have d: "0 \<le> last ?lc + seconds - now" by auto
      let ?w2 = "w1\<lparr>clock := clock w1 + (last ?lc + seconds - now)\<rparr>"
      have sl: "time_sleep (last ?lc + seconds - now) w1 = Inr ?w2"
        using d by (simp add: time_sleep_def)
      from run tt idx True sl have c: "rate_limited_call f a kw ?lc ?w2 = (r, lc', w')"
        by (simp add: rate_limited_def Let_def)
      have n: "now \<le> clock ?w2" using d w1 by simp
      have t: "\<forall>d \<in> set (ticks ?w2). 0 \<le> d" using w1 by simp
      from c n t show ?thesis by blast
    qed
    then obtain l w2 where c: "rate_limited_call f a kw l w2 = (r, lc', w')"
      and n: "now \<le> clock w2" and t: "\<forall>d \<in> set (ticks w2). 0 \<le> d" by blast
    from rate_limited_call_stamp [OF t c] n False show ?thesis by auto
  qed
qed

text \<open>
  One call of a rate-limited function that does nothing, for any \<open>calls \<ge> 1\<close>: it
  raises nothing, it appends its stamp to the filtered list, and when it had to wait, its
  stamp is at least \<open>seconds\<close> after the stamp it waited for.
\<close>

lemma rate_limited_call_no_op:
  assumes "\<forall>d \<in> set (ticks w). 0 \<le> d"
  shows "\<exists>t w'. rate_limited_call no_op [] [] lc w = (Inr (), lc @ [t], w') \<and> clock w \<le> t \<and>
           clock w' = t \<and> (\<forall>d \<in> set (ticks w'). 0 \<le> d)"
  using assms
  by (cases "ticks w") (auto simp: rate_limited_call_def time_time_def no_op_def)

lemma rate_limited_no_op:
  assumes ticks: "\<forall>d \<in> set (ticks w). 0 \<le> d" and calls: "1 \<le> calls"
  shows "\<exists>now t w'.
           rate_limited calls seconds no_op [] [] (lc, w) =
             (Inr (), filter (\<lambda>x. now - x \<le> seconds) lc @ [t], w') \<and>
           clock w \<le> now \<and> now \<le> t \<and> clock w' = t \<and> (\<forall>d \<in> set (ticks w'). 0 \<le> d) \<and>
           (calls \<le> int (length (filter (\<lambda>x. now - x \<le> seconds) lc)) \<longrightarrow>
              (\<exists>x \<in> set (filter (\<lambda>x. now - x \<le> seconds) lc). x + seconds \<le> t))"
proof -
  obtain now w1 where tt: "time_time w = (now, w1)" by (cases "time_time w")
  from time_time_ge [OF ticks tt]
  have w1: "clock w \<le> now" "clock w1 = now" "\<forall>d \<in> set (ticks w1). 0 \<le> d" by auto
  let ?lc = "filter (\<lambda>x. now - x \<le> seconds) lc"
  show ?thesis
  proof (cases "calls \<le> int (length ?lc)")
    case False
    from rate_limited_call_no_op [OF w1(3), of ?lc]
    obtain t w' where c: "rate_limited_call no_op [] [] ?lc w1 = (Inr (), ?lc @ [t], w')"
      and t: "clock w1 \<le> t" "clock w' = t" "\<forall>d \<in> set (ticks w'). 0 \<le> d" by blast
    from False tt c have "rate_limited calls seconds no_op [] [] (lc, w) = (Inr (), ?lc @ [t], w')"
      by (simp add: rate_limited_def Let_def)
    with w1 t False show ?thesis by auto
  next
    case True
    have "\<exists>x. (if calls = 1 then py_index ?lc (- 1) else py_index ?lc 1) = Inr x \<and> x \<in> set ?lc"
    proof (cases "calls = 1")
      case True
      with \<open>calls \<le> int (length ?lc)\<close> have ne: "?lc \<noteq> []" by auto
      then have i: "py_index ?lc (- 1) = Inr (last ?lc)"
        by (cases ?lc rule: rev_cases) (auto simp: py_index_def nat_add_distrib)
      have "last ?lc \<in> set ?lc" using ne by (rule last_in_set)
      with True i show ?thesis by (intro exI [of _ "last ?lc"]) (simp only: if_True simp_thms)
    next
      case False
      with calls \<open>calls \<le> int (length ?lc)\<close> have len: "2 \<le> length ?lc" by linarith
      then have i: "py_index ?lc 1 = Inr (?lc ! 1)" by (simp add: py_index_def)
      have "?lc ! 1 \<in> set ?lc" using len by (intro nth_mem) linarith
      with False i show ?thesis by (intro exI [of _ "?lc ! 1"]) (simp only: if_False simp_thms)
    qed
    then obtain x where idx: "(if calls = 1 then py_index ?lc (- 1) else py_index ?lc 1) = Inr x"
      and x: "x \<in> set ?lc" by blast
    from x have d: "0 \<le> x + seconds - now" by auto
    let ?w2 = "w1\<lparr>clock := clock w1 + (x + seconds - now)\<rparr>"
    have sl: "time_sleep (x + seconds - now) w1 = Inr ?w2"
      using d by (simp add: time_sleep_def)
    have t2: "\<forall>d \<in> set (ticks ?w2). 0 \<le> d" using w1 by simp
    from rate_limited_call_no_op [OF t2, of ?lc]
    obtain t w' where c: "rate_limited_call no_op [] [] ?lc ?w2 = (Inr (), ?lc @ [t], w')"
      and t: "clock ?w2 \<le> t" "clock w' = t" "\<forall>d \<in> set (ticks w'). 0 \<le> d" by blast
    from True tt idx sl c
    have r: "rate_limited calls seconds no_op [] [] (lc, w) = (Inr (), ?lc @ [t], w')"
      by (simp add: rate_limited_def Let_def)
    have xs: "x + seconds \<le> t" using t(1) w1(2) by simp
    have nt: "now \<le> t" using xs d by linarith
    from r w1 t xs nt x show ?thesis by blast
  qed
qed

text \<open>
  From a fresh limiter, \<open>calls + 1\<close> calls in a row all return, and the last of them is
  stamped at least \<open>seconds\<close> after the first, on any clock that does not run
  backwards.
\<close>

lemma call_times_first_window:
  assumes calls: "1 \<le> calls"
  shows "1 \<le> n \<Longrightarrow> \<forall>d \<in> set (ticks w). 0 \<le> d \<Longrightarrow> t1 \<le> clock w \<Longrightarrow>
     \<forall>x \<in> set lc. t1 \<le> x \<Longrightarrow> int (length lc) + int n \<le> calls + 1 \<Longrightarrow>
     int (length lc) + int n = calls + 1 \<or> t1 + seconds < clock w \<Longrightarrow>
     \<exists>ts. call_times calls seconds n (lc, w) = Inr ts \<and> length ts = n \<and> t1 + seconds \<le> last ts"
proof (induction n arbitrary: lc w)
  case 0
  then show ?case by simp
next
  case (Suc n)
  from rate_limited_no_op [OF Suc.prems(2) calls, of seconds lc]
  obtain now t w' where
    r: "rate_limited calls seconds no_op [] [] (lc, w) =
          (Inr (), filter (\<lambda>x. now - x \<le> seconds) lc @ [t], w')"
    and now: "clock w \<le> now" "now \<le> t" and w': "clock w' = t" "\<forall>d \<in> set (ticks w'). 0 \<le> d"
    and wait: "calls \<le> int (length (filter (\<lambda>x. now - x \<le> seconds) lc)) \<longrightarrow>
              (\<exists>x \<in> set (filter (\<lambda>x. now - x \<le> seconds) lc). x + seconds \<le> t)"
    by blast
  let ?lc = "filter (\<lambda>x. now - x \<le> seconds) lc"
  let ?lc' = "?lc @ [t]"
  have dropped: "now > t1 + seconds" if "length ?lc < length lc"
  proof -
    from that have "\<exists>x \<in> set lc. \<not> (now - x \<le> seconds)"
      by (metis filter_True less_irrefl)
    then obtain x where "x \<in> set lc" "\<not> (now - x \<le> seconds)" by blast
    with Suc.prems(4) show ?thesis by force
  qed
  have late: "t1 + seconds < clock w' \<or> (length ?lc = length lc \<and>
      int (length lc) + int (Suc n) = calls + 1)"
  proof (cases "length ?lc < length lc")
    case True
    from dropped [OF True] now w' show ?thesis by simp
  next
    case False
    with length_filter_le [of "\<lambda>x. now - x \<le> seconds" lc]
    have "length ?lc = length lc" by linarith
    with Suc.prems(6) now w' show ?thesis by auto
  qed
  show ?case
  proof (cases n)
    case 0
    have "t1 + seconds \<le> t"
    proof (cases "t1 + seconds < clock w'")
      case True
      with w' show ?thesis by simp
    next
      case False
      with late have eq: "length ?lc = length lc" "int (length lc) + int (Suc n) = calls + 1"
        by auto
      with 0 have "calls \<le> int (length ?lc)" by simp
      with wait obtain x where "x \<in> set ?lc" "x + seconds \<le> t" by blast
      with Suc.prems(4) show ?thesis by force
    qed
    with r 0 show ?thesis by simp
  next
    case (Suc m)
    have n1: "1 \<le> n" using Suc by simp
    have t1: "t1 \<le> clock w'" using Suc.prems(3) now w' by simp
    have all: "\<forall>x \<in> set ?lc'. t1 \<le> x" using Suc.prems(3,4) now by auto
    have l1: "length ?lc' = Suc (length ?lc)" by simp
    have le: "int (length ?lc') + int n \<le> calls + 1"
      using Suc.prems(5) length_filter_le [of "\<lambda>x. now - x \<le> seconds" lc]
      unfolding l1 by linarith
    have J: "int (length ?lc') + int n = calls + 1 \<or> t1 + seconds < clock w'"
      using late by auto
    from Suc.IH [OF n1 w'(2) t1 all le J]
    obtain ts where ts: "call_times calls seconds n (?lc', w') = Inr ts" "length ts = n"
      "t1 + seconds \<le> last ts" by blast
    from ts n1 have "ts \<noteq> []" by auto
    with r ts show ?thesis by simp
  qed
qed

lemma rate_limited_first_window:
  assumes calls: "1 \<le> calls" and ticks: "\<forall>d \<in> set (ticks w). 0 \<le> d"
  shows "\<exists>ts. call_times calls seconds (Suc (nat calls)) ([], w) = Inr ts \<and>
              length ts = Suc (nat calls) \<and> hd ts + seconds \<le> last ts"
proof -
  from rate_limited_no_op [OF ticks calls, of seconds "[]"]
  obtain t w' where
    r: "rate_limited calls seconds no_op [] [] ([], w) = (Inr (), [t], w')"
    and w': "clock w' = t" "\<forall>d \<in> set (ticks w'). 0 \<le> d"
    by auto
  have n: "1 \<le> nat calls" using calls by simp
  have "int (length [t]) + int (nat calls) = calls + 1" using calls by simp
  from call_times_first_window [OF calls n w'(2), of t "[t]" seconds] this w'(1)
  obtain ts where ts: "call_times calls seconds (nat calls) ([t], w') = Inr ts"
    "length ts = nat calls" "t + seconds \<le> last ts" by auto
  from ts n have "ts \<noteq> []" by auto
  with r ts show ?thesis by simp
qed

text \<open>
  With two calls per second and stamps 0, 0, 1 on a clock that stays at 1, every further
  call runs at once, however many there are.
\<close>

lemma rate_limited_burst_step:
  "rate_limited 2 1 no_op [] [] (0 # 0 # 1 # replicate k 1, \<lparr>clock = 1, ticks = []\<rparr>) =
     (Inr (), 0 # 0 # 1 # replicate (Suc k) 1, \<lparr>clock = 1, ticks = []\<rparr>)"
  by (simp add: rate_limited_def rate_limited_call_def time_time_def time_sleep_def
      py_index_def no_op_def replicate_append_same)

lemma rate_limited_burst_forever:
  "call_times 2 1 n (0 # 0 # 1 # replicate k 1, \<lparr>clock = 1, ticks = []\<rparr>) = Inr (replicate n 1)"
proof (induction n arbitrary: k)
  case 0
  show ?case by simp
next
  case (Suc n)
  have l: "last (0 # 0 # 1 # replicate (Suc k) (1::real)) = 1" by (induction k) auto
  from Suc [of "Suc k"] l show ?case by (simp only: call_times.simps rate_limited_burst_step) simp
qed

text \<open>
  Claim C1, at the configuration \<open>calls = 2\<close>, \<open>seconds = 1\<close> and five calls on a
  clock whose readings do not change between the calls (a clock of coarse resolution):
  the first two calls run at time 0, the third sleeps one second, the fourth and the
  fifth find the stamps of the first two still in the window, wait for the second of
  them, which is over, and run at once. Three calls run at time 1, within the one
  second after time 0.
\<close>

theorem rate_limited_burst:
  "call_times 2 1 5 ([], start_world) = Inr [0, 0, 1, 1, 1] \<and>
   length (filter (\<lambda>t. 0 < t \<and> t \<le> 1) [0, 0, 1, 1, 1 :: real]) = 3"
  by (simp add: eval_nat_numeral rate_limited_def rate_limited_call_def time_time_def
      time_sleep_def py_index_def start_world_def no_op_def)

section \<open>Properties of the listing extractor\<close>

lemmas extract_defs =
  extract_entry_def startswith_def ustr_def split_sep_def py_index_def
  entry_address_def street_span_def truthy_def unicode_of_def
  parse_address_def strip_def is_space_def rsplit1_def unpack2_def strasse_tail_def
  endswith_def split_ws_def parse_german_float_def sample_float_def Let_def suffix_to_prefix

lemma extract_full_entry:
  "extract_entry sample_float full_entry
     \<lparr>listings = [], no_addresses = 0, rent_var = None, area_var = None\<rparr> = Inr after_full_entry"
  by (simp add: full_entry_def after_full_entry_def extract_defs)

lemma extract_unpriced_entry:
  "extract_entry sample_float unpriced_entry after_full_entry =
     Inr \<lparr>listings =
        [(ustr ''101'',
          \<lparr>street = Some (ustr ''Kaiserstra'' @ [223] @ ustr ''e''), number = Some (ustr ''12''),
           suburb = Some (ustr ''Innenstadt''), rent = 500, area = 50\<rparr>),
         (ustr ''104'',
          \<lparr>street = None, number = None, suburb = Some (ustr ''Oststadt''), rent = 500, area = 50\<rparr>)],
      no_addresses = 0, rent_var = Some 500, area_var = Some 50\<rparr>"
  by (simp add: unpriced_entry_def after_full_entry_def extract_defs)

text \<open>
  Claim C9, on a page with a priced block followed by a block whose only criterion ends
  in neither suffix: the second listing is stored with the rent 500 and the area 50 of
  the first.
\<close>

theorem extract_listings_carries_over:
  "extract_listings sample_float \<lparr>entries = [full_entry, unpriced_entry], page_selection = None\<rparr> =
     Inr ([(ustr ''101'',
            \<lparr>street = Some (ustr ''Kaiserstra'' @ [223] @ ustr ''e''), number = Some (ustr ''12''),
             suburb = Some (ustr ''Innenstadt''), rent = 500, area = 50\<rparr>),
           (ustr ''104'',
            \<lparr>street = None, number = None, suburb = Some (ustr ''Oststadt''), rent = 500,
             area = 50\<rparr>)], 0)"
  by (simp add: extract_listings_def extract_full_entry extract_unpriced_entry)

text \<open>When such a block comes first, the page is not extracted at all.\<close>

lemma extract_listings_unbound:
  "extract_listings sample_float
     \<lparr>entries = [unpriced_entry, full_entry], page_selection = None\<rparr> =
     Inl UnboundLocalError"
  by (simp add: extract_listings_def unpriced_entry_def extract_defs)

text \<open>
  The path that the code has for a missing address: a block whose address div holds no
  span is stored with empty strings as street, number and suburb and counts as one
  missing address, and the loop goes on with the next block.
\<close>

lemma extract_loop_no_span:
  assumes "find_listing_id (anchors e) = Inr (Some i)" and "address_div e = Some None"
    and "scan_criteria flt (criteria e) (rent_var s, area_var s) = Inr (Some r, Some a)"
  shows "extract_loop flt (e # es) s =
           extract_loop flt es
             \<lparr>listings =
                AList.update i
                  \<lparr>street = Some [], number = Some [], suburb = Some [], rent = r, area = a\<rparr>
                  (listings s),
              no_addresses = no_addresses s + 1, rent_var = Some r, area_var = Some a\<rparr>"
  using assms by (simp add: extract_entry_def entry_address_def street_span_def truthy_def)

lemma extract_listings_no_span:
  "extract_listings sample_float \<lparr>entries = [bare_entry], page_selection = None\<rparr> =
     Inr ([(ustr ''102'',
            \<lparr>street = Some [], number = Some [], suburb = Some [], rent = 500, area = 50\<rparr>)], 1)"
  by (simp add: extract_listings_def bare_entry_def extract_defs)

lemma extract_no_div_entry: "extract_entry flt no_div_entry s = Inl AttributeError"
  by (simp add: no_div_entry_def extract_entry_def entry_address_def street_span_def
      startswith_def ustr_def split_sep_def py_index_def)

text \<open>
  Claim C8, on a page whose second block has no address div, the element that holds the
  address: the lookup of the span in the missing div raises AttributeError, the block is
  not stored with empty strings and a count of one, and the page gives no listings, not
  even the first block's.
\<close>

theorem extract_listings_no_address_div:
  "extract_listings sample_float \<lparr>entries = [full_entry, no_div_entry], page_selection = None\<rparr> =
     Inl AttributeError"
  by (simp add: extract_listings_def extract_full_entry extract_no_div_entry)

section \<open>Properties of the pagination driver\<close>

lemma read_growing_1: "read_page growing_site 1 = Inr (2, [], 0)"
  by (simp add: read_page_def get_page_def growing_site_def extract_number_of_pages_def
      extract_listings_def py_index_def split_ws_def ustr_def is_space_def sample_int_def)

lemma read_growing_n: "n \<noteq> 1 \<Longrightarrow> read_page growing_site n = Inr (3, [], 0)"
  by (simp add: read_page_def get_page_def growing_site_def extract_number_of_pages_def
      extract_listings_def py_index_def split_ws_def ustr_def is_space_def sample_int_def)

text \<open>
  Claim C6 as stated fails on the sample site: page 1 gives a total of 2, and the driver
  still fetches page 3, since page 2 gave a total of 3.
\<close>

theorem get_new_listings_growing_site:
  "get_new_listings growing_site [] =
   Some (Inr \<lparr>database = [], num_pages = Some 3, page_index = 4, non_addr_index = 0,
        new_count_index = - 3,
        fetched = [1, 2, 3]\<rparr>)"
  unfolding get_new_listings_def
  apply (subst get_new_listings_loop.simps, simp add: goes_on_def read_growing_1 store_listings_def)
  apply (subst get_new_listings_loop.simps, simp add: goes_on_def read_growing_n store_listings_def)
  apply (subst get_new_listings_loop.simps, simp add: goes_on_def read_growing_n store_listings_def)
  apply (subst get_new_listings_loop.simps, simp add: goes_on_def)
  done

lemma get_new_listings_loop_run:
  assumes before: "\<forall>i. 1 \<le> i \<and> i < k \<longrightarrow> (\<exists>n r. read_page env i = Inr (n, r) \<and> (n = 0 \<or> i < n))"
    and at: "read_page env k = Inr (n, r)" "n \<noteq> 0" "n \<le> k"
  shows "1 \<le> page_index s \<Longrightarrow> page_index s \<le> k \<Longrightarrow> goes_on s \<Longrightarrow>
     \<exists>s'. get_new_listings_loop env s = Some (Inr s') \<and>
          fetched s' = fetched s @ [page_index s..k] \<and> page_index s' = k + 1 \<and>
          num_pages s' = Some n"
proof (induction "nat (k - page_index s)" arbitrary: s)
  case 0
  then have pk: "page_index s = k" by simp
  obtain ls missing where r: "r = (ls, missing)" by (cases r)
  obtain db' c where st: "store_listings (store_time env k) (database s) ls = (db', c)"
    by (cases "store_listings (store_time env k) (database s) ls")
  let ?s = "\<lparr>database = db', num_pages = Some n, page_index = k + 1,
             non_addr_index = non_addr_index s + missing,
             new_count_index = new_count_index s + c, fetched = fetched s @ [k]\<rparr>"
  have stop: "\<not> goes_on ?s" using at by (simp add: goes_on_def)
  have "get_new_listings_loop env s = get_new_listings_loop env ?s"
    using 0(4) at(1) r st pk by (subst get_new_listings_loop.simps) simp
  also have "\<dots> = Some (Inr ?s)"
    using stop by (subst get_new_listings_loop.simps) simp
  finally show ?case using pk by simp
next
  case (Suc m)
  let ?i = "page_index s"
  from Suc(2) have lt: "?i < k" by simp
  with before Suc(3) obtain ni ri where rd: "read_page env ?i = Inr (ni, ri)"
    and cont: "ni = 0 \<or> ?i < ni" by blast
  obtain ls missing where r: "ri = (ls, missing)" by (cases ri)
  obtain db' c where st: "store_listings (store_time env ?i) (database s) ls = (db', c)"
    by (cases "store_listings (store_time env ?i) (database s) ls")
  let ?s = "\<lparr>database = db', num_pages = Some ni, page_index = ?i + 1,
             non_addr_index = non_addr_index s + missing,
             new_count_index = new_count_index s + c, fetched = fetched s @ [?i]\<rparr>"
  have step: "get_new_listings_loop env s = get_new_listings_loop env ?s"
    using Suc(5) rd r st by (subst get_new_listings_loop.simps) simp
  have m: "m = nat (k - page_index ?s)" using Suc(2) by simp
  have g: "goes_on ?s" using cont by (auto simp: goes_on_def)
  from Suc(1) [OF m _ _ g] Suc(3) lt
  obtain s' where res: "get_new_listings_loop env ?s = Some (Inr s')"
    "fetched s' = fetched ?s @ [page_index ?s..k]" "page_index s' = k + 1" "num_pages s' = Some n"
    by auto
  have "[?i..k] = ?i # [?i + 1..k]" using lt by (simp add: upto_rec1)
  with res step show ?case by simp
qed

text \<open>
  Claim C6, as the code has it: the number of pages is extracted from every page that is
  fetched, and the driver stops after the first page \<open>k\<close> whose own number of pages is
  not 0 and at most \<open>k\<close>; it has then fetched the pages 1 to \<open>k\<close>, one after the
  other, and holds the number that page \<open>k\<close> gave.
\<close>

theorem get_new_listings_stops:
  assumes before: "\<forall>i. 1 \<le> i \<and> i < k \<longrightarrow> (\<exists>n r. read_page env i = Inr (n, r) \<and> (n = 0 \<or> i < n))"
    and at: "read_page env k = Inr (n, r)" "n \<noteq> 0" "n \<le> k"
    and k: "1 \<le> k"
  shows "\<exists>s. get_new_listings env db0 = Some (Inr s) \<and> fetched s = [1..k] \<and>
             page_index s = k + 1 \<and> num_pages s = Some n"
proof -
  let ?s = "\<lparr>database = db0, num_pages = None, page_index = 1, non_addr_index = 0,
             new_count_index = 0, fetched = []\<rparr>"
  have "goes_on ?s" by (simp add: goes_on_def)
  from get_new_listings_loop_run [OF before at _ _ this] k
  show ?thesis by (simp add: get_new_listings_def)
qed

theorem get_new_listings_stops_witness:
  "read_page growing_site 1 = Inr (2, [], 0) \<and> read_page growing_site 2 = Inr (3, [], 0) \<and>
   read_page growing_site 3 = Inr (3, [], 0) \<and>
   map_option (map_sum id fetched) (get_new_listings growing_site []) = Some (Inr [1, 2, 3]) \<and>
   map_option (map_sum id num_pages) (get_new_listings growing_site []) = Some (Inr (Some 3))"
proof -
  have before: "\<forall>i. 1 \<le> i \<and> i < 3 \<longrightarrow>
       (\<exists>n r. read_page growing_site i = Inr (n, r) \<and> (n = 0 \<or> i < n))"
  proof (intro allI impI)
    fix i :: int
    assume "1 \<le> i \<and> i < 3"
    then have "i = 1 \<or> i = 2" by arith
    then show "\<exists>n r. read_page growing_site i = Inr (n, r) \<and> (n = 0 \<or> i < n)"
      by (auto simp: read_growing_1 read_growing_n)
  qed
  have at: "read_page growing_site 3 = Inr (3, [], 0)" by (simp add: read_growing_n)
  have upto: "[1..3] = [1, 2, 3 :: int]" by (simp add: upto_rec1)
  from get_new_listings_stops [OF before at, of "[]"] upto
  obtain s where "get_new_listings growing_site [] = Some (Inr s)" "fetched s = [1, 2, 3]"
    "num_pages s = Some 3" by auto
  then show ?thesis by (simp add: read_growing_1 read_growing_n)
qed

end
